theory Spec2Isabelle
  imports Main
begin

section \<open>Study helper bot: task store, focus timer and quotes\<close>

text \<open>
  A shallow embedding of the command handlers of \<^verbatim>\<open>src/main.py\<close>. The handlers are
  coroutines that read the process-wide dictionary \<^verbatim>\<open>user_tasks\<close>, register jobs with
  the job queue of the transport and send messages through it. Here each handler is a
  function from the state before the update to the state after it; the state holds the
  dictionary, the jobs registered so far and the messages sent so far.

  The update is taken to carry a message (\<^verbatim>\<open>update.message\<close> is present), and sending a
  message is taken to succeed: the transport is not part of the repository. Registering
  a job fails when the delay is out of the scheduler's range.
\<close>

subsection \<open>Python strings\<close>

text \<open>
  A Python \<^verbatim>\<open>str\<close> is a sequence of Unicode code points. The replies of the bot
  contain code points above U+00FF, so a string is a list of code points and not a list
  of 8-bit characters. \<open>ascii\<close> embeds an ASCII literal.
\<close>

type_synonym str = "nat list"

definition ascii :: "string \<Rightarrow> str" where
  "ascii cs = map of_char cs"

datatype error = ValueError | IndexError | KeyError | OverflowError

text \<open>
  \<^verbatim>\<open>str.strip()\<close> without argument removes leading and trailing whitespace, which for
  a \<^verbatim>\<open>str\<close> is the set of code points below.
\<close>

definition isspace :: "nat \<Rightarrow> bool" where
  "isspace c =
     ((0x09 \<le> c \<and> c \<le> 0x0D) \<or> (0x1C \<le> c \<and> c \<le> 0x20) \<or> c = 0x85 \<or> c = 0xA0
      \<or> c = 0x1680 \<or> (0x2000 \<le> c \<and> c \<le> 0x200A) \<or> c = 0x2028 \<or> c = 0x2029
      \<or> c = 0x202F \<or> c = 0x205F \<or> c = 0x3000)"

definition strip :: "str \<Rightarrow> str" where
  "strip s = rev (dropWhile isspace (rev (dropWhile isspace s)))"

text \<open>\<^verbatim>\<open>sep.join(xs)\<close>.\<close>

fun join :: "str \<Rightarrow> str list \<Rightarrow> str" where
  "join sep [] = []"
| "join sep [x] = x"
| "join sep (x # y # ys) = x @ sep @ join sep (y # ys)"

text \<open>
  The decimal representation that \<^verbatim>\<open>str(n)\<close> and an f-string field give for an
  integer.
\<close>

fun str_nat :: "nat \<Rightarrow> str" where
  "str_nat n = (if n < 10 then [48 + n] else str_nat (n div 10) @ [48 + n mod 10])"

declare str_nat.simps [simp del]

definition str_int :: "int \<Rightarrow> str" where
  "str_int i = (if i < 0 then 45 # str_nat (nat (- i)) else str_nat (nat i))"

text \<open>
  \<^verbatim>\<open>str.isdigit()\<close> and \<^verbatim>\<open>int(str)\<close> read the Unicode character database of the
  interpreter, which is not part of the repository. On ASCII both are fixed: the digits
  are \<^verbatim>\<open>0\<close> to \<^verbatim>\<open>9\<close>. Above ASCII the two tables are parameters of the model:
  \<open>unicode_isdigit\<close> says whether a code point has the digit property, and
  \<open>unicode_todecimal\<close> gives the value of a decimal digit. The tables differ (superscript
  two, U+00B2, is a digit and not a decimal), and that is the one way in which
  \<^verbatim>\<open>int\<close> can fail on a string that \<^verbatim>\<open>isdigit\<close> accepts, together with the
  interpreter's limit on the number of digits of a conversion
  (\<^verbatim>\<open>sys.int_max_str_digits\<close>, 0 when there is none).

  The clock is outside the program as well. The job queue adds the delay of a job to the
  current time, and no \<^verbatim>\<open>datetime\<close> lies beyond the year 9999:
  \<open>scheduler_horizon\<close> is the number of whole seconds from the current time to the
  end of that range.
\<close>

record runtime =
  unicode_isdigit :: "nat \<Rightarrow> bool"
  unicode_todecimal :: "nat \<Rightarrow> nat option"
  int_max_str_digits :: nat
  scheduler_horizon :: int

definition isdigit_char :: "runtime \<Rightarrow> nat \<Rightarrow> bool" where
  "isdigit_char rt c = (if c < 128 then 48 \<le> c \<and> c \<le> 57 else unicode_isdigit rt c)"

definition isdigit :: "runtime \<Rightarrow> str \<Rightarrow> bool" where
  "isdigit rt s = (s \<noteq> [] \<and> list_all (isdigit_char rt) s)"

definition todecimal :: "runtime \<Rightarrow> nat \<Rightarrow> nat option" where
  "todecimal rt c =
     (if c < 128 then (if 48 \<le> c \<and> c \<le> 57 then Some (c - 48) else None)
      else unicode_todecimal rt c)"

fun decimals :: "runtime \<Rightarrow> str \<Rightarrow> nat list option" where
  "decimals rt [] = Some []"
| "decimals rt (c # cs) =
     (case todecimal rt c of
        None \<Rightarrow> None
      | Some d \<Rightarrow> (case decimals rt cs of None \<Rightarrow> None | Some ds \<Rightarrow> Some (d # ds)))"

text \<open>
  \<^verbatim>\<open>int(s)\<close> as the handlers call it, on a string of digits only (no sign, blank or
  underscore is left to skip): every character must be a decimal digit.
\<close>

definition int_str :: "runtime \<Rightarrow> str \<Rightarrow> error + int" where
  "int_str rt s =
     (if 0 < int_max_str_digits rt \<and> int_max_str_digits rt < length s then Inl ValueError
      else case decimals rt s of
             None \<Rightarrow> Inl ValueError
           | Some ds \<Rightarrow>
               if ds = [] then Inl ValueError
               else Inr (foldl (\<lambda>a d. 10 * a + int d) 0 ds))"

text \<open>
  \<^verbatim>\<open>list.pop(i)\<close>: the element at index \<open>i\<close> and the list without it; a negative
  index counts from the end, an index out of range raises.
\<close>

definition pop :: "'a list \<Rightarrow> int \<Rightarrow> error + ('a \<times> 'a list)" where
  "pop xs i =
     (if - int (length xs) \<le> i \<and> i < int (length xs)
      then (let pos = nat (if 0 \<le> i then i else i + int (length xs))
            in Inr (xs ! pos, take pos xs @ drop (Suc pos) xs))
      else Inl IndexError)"

text \<open>
  \<^verbatim>\<open>random.choice(seq)\<close> raises on an empty sequence and returns the element at an
  index below \<^verbatim>\<open>len(seq)\<close> otherwise. The generator is outside the program: its draw
  is the argument \<open>r\<close>, reduced to an index.
\<close>

definition choice :: "'a list \<Rightarrow> nat \<Rightarrow> error + 'a" where
  "choice seq r = (if seq = [] then Inl IndexError else Inr (seq ! (r mod length seq)))"

subsection \<open>State\<close>

record message =
  msg_chat_id :: int
  msg_text :: str
  msg_parse_mode :: "str option"

datatype callback = Alarm_callback

record job =
  job_callback :: callback
  job_when :: int
  job_chat_id :: int
  job_name :: str
  job_data :: "str \<rightharpoonup> str"

record bot =
  user_tasks :: "int \<rightharpoonup> str list"
  job_queue :: "job list"
  sent :: "message list"

record update =
  effective_user_id :: int
  effective_chat_id :: int

definition send_message :: "int \<Rightarrow> str \<Rightarrow> str option \<Rightarrow> bot \<Rightarrow> bot" where
  "send_message chat txt mode st =
     st\<lparr>sent := sent st @ [\<lparr>msg_chat_id = chat, msg_text = txt, msg_parse_mode = mode\<rparr>]\<rparr>"

definition reply_text :: "update \<Rightarrow> str \<Rightarrow> str option \<Rightarrow> bot \<Rightarrow> bot" where
  "reply_text upd txt mode st = send_message (effective_chat_id upd) txt mode st"

definition add_job :: "callback \<Rightarrow> int \<Rightarrow> int \<Rightarrow> str \<Rightarrow> (str \<rightharpoonup> str) \<Rightarrow> bot \<Rightarrow> bot" where
  "add_job cb secs chat nm dat st =
     st\<lparr>job_queue := job_queue st @
        [\<lparr>job_callback = cb, job_when = secs, job_chat_id = chat, job_name = nm,
          job_data = dat\<rparr>]\<rparr>"

text \<open>
  \<^verbatim>\<open>job_queue.run_once(callback, when, ...)\<close> with a number of seconds: the time of
  firing is the current time plus the delay, and the addition raises
  \<^verbatim>\<open>OverflowError\<close> when the result is out of the range of \<^verbatim>\<open>datetime\<close>. Then no
  job is added.
\<close>

definition run_once ::
  "runtime \<Rightarrow> callback \<Rightarrow> int \<Rightarrow> int \<Rightarrow> str \<Rightarrow> (str \<rightharpoonup> str) \<Rightarrow> bot \<Rightarrow> error + bot" where
  "run_once rt cb secs chat nm dat st =
     (if scheduler_horizon rt < secs then Inl OverflowError
      else Inr (add_job cb secs chat nm dat st))"

definition Markdown :: "str option" where
  "Markdown = Some (ascii ''Markdown'')"

subsection \<open>Quotes\<close>

definition quotes :: "str list" where
  "quotes =
     [ascii ''The mind is not a vessel to be filled, but a fire to be kindled. - Plutarch'',
      ascii ''The beautiful thing about learning is that no one can take it away from you. - B.B. King'',
      ascii ''The only way to do great work is to love what you do. - Steve Jobs'',
      ascii ''Strive for progress, not perfection.'',
      ascii ''Today's actions are tomorrow's results.'']"

definition get_motivational_quote :: "nat \<Rightarrow> error + str" where
  "get_motivational_quote r = choice quotes r"

definition quote_header :: str where
  "quote_header = [0x1F4A1] @ ascii '' **Motivation Boost:**'' @ [10, 10]"

definition quote_command :: "nat \<Rightarrow> update \<Rightarrow> bot \<Rightarrow> error + bot" where
  "quote_command r upd st =
     (case get_motivational_quote r of
        Inl e \<Rightarrow> Inl e
      | Inr quote \<Rightarrow>
          Inr (reply_text upd (quote_header @ ascii ''_'' @ quote @ ascii ''_'') Markdown st))"

subsection \<open>Focus timer\<close>

definition alarm_text :: "str \<Rightarrow> str" where
  "alarm_text ty =
     ascii ''**DING DING!** Your '' @ ty
     @ ascii '' timer is finished! Time for a well-deserved break or move on to the next task.''"

definition alarm_callback :: "job \<Rightarrow> bot \<Rightarrow> error + bot" where
  "alarm_callback jb st =
     (case job_data jb (ascii ''type'') of
        None \<Rightarrow> Inl KeyError
      | Some ty \<Rightarrow> Inr (send_message (job_chat_id jb) (alarm_text ty) Markdown st))"

text \<open>
  Lines 81 to 86: the requested minutes. The argument is read only when there is one
  and it consists of digits; every other request takes the default.
\<close>

definition duration_minutes :: "runtime \<Rightarrow> str list \<Rightarrow> error + int" where
  "duration_minutes rt user_input =
     (case user_input of
        [] \<Rightarrow> Inr 25
      | a # _ \<Rightarrow> if isdigit rt a then int_str rt a else Inr 25)"

text \<open>Line 88: the delay in seconds.\<close>

definition duration_seconds :: "int \<Rightarrow> int" where
  "duration_seconds m = (if m = 25 then 10 else m * 60)"

definition pomodoro_usage :: str where
  "pomodoro_usage = ascii ''Usage: /pomodoro [minutes] or just /pomodoro (for 25 minutes).''"

definition minimum_text :: str where
  "minimum_text = ascii ''The minimum timer duration is 5 seconds.''"

definition study_label :: "int \<Rightarrow> str" where
  "study_label m = str_int m @ ascii ''-minute study''"

definition timer_set_text :: "int \<Rightarrow> str" where
  "timer_set_text m =
     [0x2705] @ ascii '' Timer set! You are now focusing for '' @ str_int m
     @ ascii '' minutes. I'll notify you when time's up!''"

text \<open>The exceptions that the \<^verbatim>\<open>except\<close> clause of \<^verbatim>\<open>pomodoro_command\<close> names.\<close>

definition pomodoro_except :: "error \<Rightarrow> bool" where
  "pomodoro_except e = (e = IndexError \<or> e = ValueError)"

text \<open>
  The body of the \<^verbatim>\<open>try\<close> raises through \<^verbatim>\<open>int\<close> and through
  \<^verbatim>\<open>run_once\<close>. An exception that the clause names is answered with the usage
  message; any other leaves the handler, with nothing sent and nothing registered.
\<close>

definition pomodoro_command :: "runtime \<Rightarrow> update \<Rightarrow> str list \<Rightarrow> bot \<Rightarrow> error + bot" where
  "pomodoro_command rt upd args st =
     (let chat_id = effective_chat_id upd;
          body =
            (case duration_minutes rt args of
               Inl e \<Rightarrow> Inl e
             | Inr m \<Rightarrow>
                 if duration_seconds m < 5 then Inr (reply_text upd minimum_text None st)
                 else
                   (case run_once rt Alarm_callback (duration_seconds m) chat_id
                           (str_int chat_id) [ascii ''type'' \<mapsto> study_label m] st of
                      Inl e \<Rightarrow> Inl e
                    | Inr scheduled \<Rightarrow> Inr (reply_text upd (timer_set_text m) None scheduled)))
      in case body of
           Inl e \<Rightarrow>
             if pomodoro_except e then Inr (reply_text upd pomodoro_usage None st) else Inl e
         | Inr done_state \<Rightarrow> Inr done_state)"

subsection \<open>Task store\<close>

definition tasks_add_usage :: str where
  "tasks_add_usage =
     ascii ''Please provide the task description after the command, e.g., `/tasks_add Read Chapter 3`''"

definition task_added_text :: "str \<Rightarrow> nat \<Rightarrow> str" where
  "task_added_text task_text n =
     [0x1F4DD] @ ascii '' Task added: **'' @ task_text @ ascii ''** (Task #''
     @ str_int (int n) @ ascii '')''"

definition tasks_add_command :: "update \<Rightarrow> str list \<Rightarrow> bot \<Rightarrow> bot" where
  "tasks_add_command upd args st =
     (let user_id = effective_user_id upd;
          task_text = strip (join (ascii '' '') args)
      in if task_text = [] then reply_text upd tasks_add_usage None st
         else
           let tasks = (case user_tasks st user_id of None \<Rightarrow> [] | Some xs \<Rightarrow> xs) @ [task_text]
           in reply_text upd (task_added_text task_text (length tasks)) Markdown
                (st\<lparr>user_tasks := (user_tasks st)(user_id \<mapsto> tasks)\<rparr>))"

definition list_empty_text :: str where
  "list_empty_text =
     [0x1F389] @ ascii '' Your to-do list is empty! Ready to add some new study goals?''"

definition list_header :: str where
  "list_header = [0x1F4DA] @ ascii '' **Your Current Study Tasks:**'' @ [10, 10]"

definition task_line :: "int \<Rightarrow> str \<Rightarrow> str" where
  "task_line i task = str_int i @ ascii ''. '' @ task @ [10]"

text \<open>The loop over \<^verbatim>\<open>enumerate(user_tasks[user_id], 1)\<close>, which extends the message.\<close>

fun enumerate_tasks :: "str \<Rightarrow> int \<Rightarrow> str list \<Rightarrow> str" where
  "enumerate_tasks message i [] = message"
| "enumerate_tasks message i (task # tasks) =
     enumerate_tasks (message @ task_line i task) (i + 1) tasks"

definition tasks_list_command :: "update \<Rightarrow> bot \<Rightarrow> bot" where
  "tasks_list_command upd st =
     (case user_tasks st (effective_user_id upd) of
        None \<Rightarrow> reply_text upd list_empty_text None st
      | Some tasks \<Rightarrow>
          if tasks = [] then reply_text upd list_empty_text None st
          else reply_text upd (enumerate_tasks list_header 1 tasks) Markdown st)"

definition tasks_done_usage :: str where
  "tasks_done_usage =
     ascii ''Usage: /tasks_done [number of task to complete]. Use /tasks_list to see numbers.''"

definition nothing_done_text :: str where
  "nothing_done_text = ascii ''Your list is empty, nothing to mark as done!''"

definition completed_text :: "str \<Rightarrow> str" where
  "completed_text completed_task =
     [0x2705] @ ascii '' Great job! You completed: **'' @ completed_task @ ascii ''**''"

definition no_such_task_text :: str where
  "no_such_task_text =
     ascii ''That task number doesn't exist. Check /tasks_list for current numbers.''"

definition error_occurred_text :: str where
  "error_occurred_text = ascii ''An error occurred. Make sure you entered a valid number.''"

text \<open>
  The \<^verbatim>\<open>try\<close> of \<^verbatim>\<open>tasks_done_command\<close> catches every exception of its body, that of
  \<^verbatim>\<open>int\<close> and that of \<^verbatim>\<open>pop\<close>; the log line it writes is not modelled.
\<close>

definition tasks_done_command :: "runtime \<Rightarrow> update \<Rightarrow> str list \<Rightarrow> bot \<Rightarrow> bot" where
  "tasks_done_command rt upd args st =
     (let user_id = effective_user_id upd in
      case args of
        [] \<Rightarrow> reply_text upd tasks_done_usage None st
      | a # _ \<Rightarrow>
          if \<not> isdigit rt a then reply_text upd tasks_done_usage None st
          else
            (case int_str rt a of
               Inl e \<Rightarrow> reply_text upd error_occurred_text None st
             | Inr n \<Rightarrow>
                 (let task_index = n - 1 in
                  case user_tasks st user_id of
                    None \<Rightarrow> reply_text upd nothing_done_text None st
                  | Some tasks \<Rightarrow>
                      if tasks = [] then reply_text upd nothing_done_text None st
                      else if 0 \<le> task_index \<and> task_index < int (length tasks) then
                        (case pop tasks task_index of
                           Inl e \<Rightarrow> reply_text upd error_occurred_text None st
                         | Inr (completed_task, rest) \<Rightarrow>
                             reply_text upd (completed_text completed_task) Markdown
                               (st\<lparr>user_tasks := (user_tasks st)(user_id \<mapsto> rest)\<rparr>))
                      else reply_text upd no_such_task_text None st)))"

subsection \<open>Concrete inputs\<close>

text \<open>
  An interpreter for the examples: the Latin-1 part of the character database, where the
  superscripts U+00B2, U+00B3 and U+00B9 are digits without being decimals, the default
  conversion limit of 4300 digits, and the clock at the start of 4 November 2026, from
  where the range of \<^verbatim>\<open>datetime\<close> ends after 251608550399 whole seconds.
\<close>

definition latin1_runtime :: runtime where
  "latin1_runtime =
     \<lparr>unicode_isdigit = (\<lambda>c. c = 0xB2 \<or> c = 0xB3 \<or> c = 0xB9),
      unicode_todecimal = (\<lambda>c. None),
      int_max_str_digits = 4300,
      scheduler_horizon = 251608550399\<rparr>"

definition example_update :: update where
  "example_update = \<lparr>effective_user_id = 7, effective_chat_id = 7\<rparr>"

definition example_bot :: bot where
  "example_bot = \<lparr>user_tasks = Map.empty, job_queue = [], sent = []\<rparr>"

text \<open>The store of the scenario of the specification: user 7 has two tasks.\<close>

definition two_tasks_bot :: bot where
  "two_tasks_bot =
     \<lparr>user_tasks = [7 \<mapsto> [ascii ''Read Chapter 3'', ascii ''Do homework'']],
      job_queue = [], sent = []\<rparr>"

section \<open>Properties\<close>

subsection \<open>Effects of the transport calls\<close>

lemma user_tasks_send_message [simp]: "user_tasks (send_message c t m st) = user_tasks st"
  by (simp add: send_message_def)

lemma job_queue_send_message [simp]: "job_queue (send_message c t m st) = job_queue st"
  by (simp add: send_message_def)

lemma sent_send_message [simp]:
  "sent (send_message c t m st) =
     sent st @ [\<lparr>msg_chat_id = c, msg_text = t, msg_parse_mode = m\<rparr>]"
  by (simp add: send_message_def)

lemma user_tasks_add_job [simp]: "user_tasks (add_job cb s c n d st) = user_tasks st"
  by (simp add: add_job_def)

lemma sent_add_job [simp]: "sent (add_job cb s c n d st) = sent st"
  by (simp add: add_job_def)

lemma job_queue_add_job [simp]:
  "job_queue (add_job cb s c n d st) = job_queue st @
     [\<lparr>job_callback = cb, job_when = s, job_chat_id = c, job_name = n, job_data = d\<rparr>]"
  by (simp add: add_job_def)

subsection \<open>Decimal strings\<close>

lemma str_nat_not_empty: "str_nat n \<noteq> []"
  by (subst str_nat.simps) simp

lemma decimals_append:
  "decimals rt (xs @ ys) =
     (case decimals rt xs of
        None \<Rightarrow> None
      | Some a \<Rightarrow> (case decimals rt ys of None \<Rightarrow> None | Some b \<Rightarrow> Some (a @ b)))"
  by (induction xs) (simp_all split: option.splits)

lemma isdigit_char_ascii: "r < 10 \<Longrightarrow> isdigit_char rt (48 + r)"
  by (simp add: isdigit_char_def)

lemma todecimal_ascii: "r < 10 \<Longrightarrow> todecimal rt (48 + r) = Some r"
  by (simp add: todecimal_def)

lemma list_all_str_nat: "list_all (isdigit_char rt) (str_nat n)"
proof (induction n rule: str_nat.induct)
  case (1 n)
  show ?case
  proof (cases "n < 10")
    case True
    then show ?thesis
      by (subst str_nat.simps) (simp add: isdigit_char_ascii)
  next
    case False
    with 1 show ?thesis
      by (subst str_nat.simps) (simp add: isdigit_char_ascii)
  qed
qed

lemma isdigit_str_nat: "isdigit rt (str_nat n)"
  by (simp add: isdigit_def str_nat_not_empty list_all_str_nat)

lemma decimals_str_nat:
  "\<exists>ds. decimals rt (str_nat n) = Some ds \<and> ds \<noteq> []
     \<and> foldl (\<lambda>a d. 10 * a + int d) 0 ds = int n"
proof (induction n rule: str_nat.induct)
  case (1 n)
  show ?case
  proof (cases "n < 10")
    case True
    then show ?thesis
      by (subst str_nat.simps) (simp add: todecimal_ascii)
  next
    case False
    with 1 obtain ds where ds: "decimals rt (str_nat (n div 10)) = Some ds"
      and v: "foldl (\<lambda>a d. 10 * a + int d) 0 ds = int (n div 10)"
      by blast
    have "decimals rt (str_nat n) = Some (ds @ [n mod 10])"
      using False ds
      by (subst str_nat.simps) (simp add: decimals_append todecimal_ascii)
    moreover have "foldl (\<lambda>a d. 10 * a + int d) 0 (ds @ [n mod 10]) = int n"
      using v by (simp add: zdiv_int zmod_int)
    ultimately show ?thesis by simp
  qed
qed

text \<open>
  Reading back the decimal representation of \<open>n\<close> gives \<open>n\<close>, unless the
  conversion limit cuts it off: every number of minutes and every task number is the
  reading of some argument.
\<close>

lemma int_str_str_nat:
  assumes "int_max_str_digits rt = 0 \<or> length (str_nat n) \<le> int_max_str_digits rt"
  shows "int_str rt (str_nat n) = Inr (int n)"
proof -
  from decimals_str_nat [of rt n] obtain ds where "decimals rt (str_nat n) = Some ds"
    "ds \<noteq> []" "foldl (\<lambda>a d. 10 * a + int d) 0 ds = int n"
    by blast
  with assms show ?thesis
    by (auto simp add: int_str_def)
qed

lemma duration_minutes_str_nat:
  assumes "int_max_str_digits rt = 0 \<or> length (str_nat n) \<le> int_max_str_digits rt"
  shows "duration_minutes rt (str_nat n # others) = Inr (int n)"
  using assms by (simp add: duration_minutes_def isdigit_str_nat int_str_str_nat)

subsection \<open>Focus timer\<close>

lemma pomodoro_command_cases:
  assumes "duration_minutes rt args = Inr m"
  shows "pomodoro_command rt upd args st =
    (if duration_seconds m < 5 then Inr (reply_text upd minimum_text None st)
     else if scheduler_horizon rt < duration_seconds m then Inl OverflowError
     else Inr (reply_text upd (timer_set_text m) None
            (add_job Alarm_callback (duration_seconds m) (effective_chat_id upd)
               (str_int (effective_chat_id upd)) [ascii ''type'' \<mapsto> study_label m] st)))"
  using assms
  by (simp add: pomodoro_command_def Let_def run_once_def pomodoro_except_def)

lemma isdigit_5: "isdigit latin1_runtime (ascii ''5'')"
  by (simp add: isdigit_def isdigit_char_def ascii_def)

lemma int_str_5: "int_str latin1_runtime (ascii ''5'') = Inr 5"
  by (simp add: int_str_def todecimal_def ascii_def latin1_runtime_def)

lemma duration_minutes_5: "duration_minutes latin1_runtime [ascii ''5''] = Inr 5"
  by (simp add: duration_minutes_def isdigit_5 int_str_5)

lemma duration_minutes_default: "duration_minutes rt [] = Inr 25"
  by (simp add: duration_minutes_def)

lemma latin1_horizon: "scheduler_horizon latin1_runtime = 251608550399"
  by (simp add: latin1_runtime_def)

text \<open>
  C1. The delay that line 88 resolves for \<open>m\<close> minutes is 10 seconds if \<open>m = 25\<close> and
  \<open>m * 60\<close> seconds otherwise, for every \<open>m\<close>. It is the delay the command works with:
  a request read as \<open>m > 0\<close> minutes, whose time of firing the scheduler can hold, gets
  a job with exactly that delay. A request without argument is read as 25 minutes, so
  the default takes the 10 seconds as an explicit 25 does; 25 minutes resolve to 10
  seconds and 5 minutes to 300.
\<close>

theorem pomodoro_resolved_delay:
  "duration_seconds m = (if m = 25 then 10 else m * 60)
   \<and> (duration_minutes rt args = Inr m \<and> 0 < m
        \<and> (if m = 25 then 10 else m * 60) \<le> scheduler_horizon rt \<longrightarrow>
      (\<exists>st'. pomodoro_command rt upd args st = Inr st' \<and>
         map job_when (job_queue st') =
           map job_when (job_queue st) @ [if m = 25 then 10 else m * 60]))
   \<and> duration_minutes rt [] = Inr 25
   \<and> duration_seconds 25 = 10 \<and> duration_seconds 5 = 300"
proof -
  have a: "duration_seconds m = (if m = 25 then 10 else m * 60)"
    by (simp add: duration_seconds_def)
  have b: "\<exists>st'. pomodoro_command rt upd args st = Inr st' \<and>
         map job_when (job_queue st') =
           map job_when (job_queue st) @ [if m = 25 then 10 else m * 60]"
    if m: "duration_minutes rt args = Inr m" and pos: "0 < m"
      and h: "(if m = 25 then 10 else m * 60) \<le> scheduler_horizon rt"
  proof -
    from pos have "\<not> duration_seconds m < 5"
      by (simp add: duration_seconds_def)
    moreover from h have "\<not> scheduler_horizon rt < duration_seconds m"
      by (simp add: duration_seconds_def)
    ultimately have "pomodoro_command rt upd args st =
        Inr (reply_text upd (timer_set_text m) None
            (add_job Alarm_callback (duration_seconds m) (effective_chat_id upd)
               (str_int (effective_chat_id upd)) [ascii ''type'' \<mapsto> study_label m] st))"
      using m by (simp add: pomodoro_command_cases)
    then show ?thesis
      by (simp add: reply_text_def a)
  qed
  have c: "duration_seconds 25 = 10" "duration_seconds 5 = 300"
    by (simp_all add: duration_seconds_def)
  from a b c duration_minutes_default show ?thesis by blast
qed

theorem pomodoro_resolved_delay_witness:
  "duration_minutes latin1_runtime [ascii ''5''] = Inr 5 \<and> (0::int) < 5 \<and>
   (if (5::int) = 25 then 10 else 5 * 60) \<le> scheduler_horizon latin1_runtime \<and>
   (\<exists>st'. pomodoro_command latin1_runtime example_update [ascii ''5''] example_bot = Inr st' \<and>
      map job_when (job_queue st') = [300])"
proof -
  have p: "(0::int) < 5"
    by simp
  have h: "(if (5::int) = 25 then 10 else 5 * 60) \<le> scheduler_horizon latin1_runtime"
    by (simp add: latin1_horizon)
  from pomodoro_resolved_delay [of 5 latin1_runtime "[ascii ''5'']" example_update example_bot]
    duration_minutes_5 p h
  show ?thesis by (simp add: example_bot_def)
qed

lemma isdigit_abc: "\<not> isdigit rt (ascii ''abc'')"
  by (simp add: isdigit_def isdigit_char_def ascii_def)

text \<open>
  C2. The claim asks for a usage error whenever an explicit argument is not a
  non-negative integer. The handler reads the argument only when it consists of digits
  and takes the default of 25 minutes otherwise: for the argument \<^verbatim>\<open>abc\<close> its
  result is never the usage reply, and whenever the scheduler can hold a time of firing
  10 seconds ahead it registers a job of 10 seconds labelled as 25 minutes of study and
  confirms the timer.
\<close>

theorem pomodoro_non_numeric_argument_schedules:
  "pomodoro_command rt upd [ascii ''abc''] st \<noteq> Inr (reply_text upd pomodoro_usage None st)
   \<and> (10 \<le> scheduler_horizon rt \<longrightarrow>
        pomodoro_command rt upd [ascii ''abc''] st =
          Inr (reply_text upd (timer_set_text 25) None
            (add_job Alarm_callback 10 (effective_chat_id upd) (str_int (effective_chat_id upd))
               [ascii ''type'' \<mapsto> study_label 25] st))
        \<and> job_queue (reply_text upd (timer_set_text 25) None
            (add_job Alarm_callback 10 (effective_chat_id upd) (str_int (effective_chat_id upd))
               [ascii ''type'' \<mapsto> study_label 25] st)) \<noteq> job_queue st)"
proof -
  have m: "duration_minutes rt [ascii ''abc''] = Inr 25"
    by (simp add: duration_minutes_def isdigit_abc)
  have eq: "pomodoro_command rt upd [ascii ''abc''] st =
     (if scheduler_horizon rt < 10 then Inl OverflowError
      else Inr (reply_text upd (timer_set_text 25) None
            (add_job Alarm_callback 10 (effective_chat_id upd) (str_int (effective_chat_id upd))
               [ascii ''type'' \<mapsto> study_label 25] st)))"
    by (simp add: pomodoro_command_cases [OF m] duration_seconds_def)
  have q: "job_queue (reply_text upd (timer_set_text 25) None
            (add_job Alarm_callback 10 (effective_chat_id upd) (str_int (effective_chat_id upd))
               [ascii ''type'' \<mapsto> study_label 25] st)) \<noteq> job_queue st"
    by (simp add: reply_text_def)
  have u: "job_queue (reply_text upd pomodoro_usage None st) = job_queue st"
    by (simp add: reply_text_def)
  have "pomodoro_command rt upd [ascii ''abc''] st \<noteq> Inr (reply_text upd pomodoro_usage None st)"
  proof (cases "scheduler_horizon rt < 10")
    case True
    then show ?thesis by (simp add: eq)
  next
    case False
    with q u show ?thesis
      unfolding eq by (metis Inr_inject)
  qed
  with eq q show ?thesis by simp
qed

theorem pomodoro_non_numeric_argument_schedules_witness:
  "10 \<le> scheduler_horizon latin1_runtime \<and>
   pomodoro_command latin1_runtime example_update [ascii ''abc''] example_bot =
     Inr (reply_text example_update (timer_set_text 25) None
       (add_job Alarm_callback 10 7 (str_int 7) [ascii ''type'' \<mapsto> study_label 25]
          example_bot))"
proof -
  have h: "10 \<le> scheduler_horizon latin1_runtime"
    by (simp add: latin1_horizon)
  from pomodoro_non_numeric_argument_schedules [of latin1_runtime example_update example_bot] h
  show ?thesis by (simp add: example_update_def)
qed

text \<open>
  The usage reply of the timer is reached through a digit that is not a decimal, here
  superscript two.
\<close>

lemma pomodoro_usage_superscript:
  "pomodoro_command latin1_runtime upd [[0xB2]] st = Inr (reply_text upd pomodoro_usage None st)"
  by (simp add: pomodoro_command_def duration_minutes_def isdigit_def isdigit_char_def
      int_str_def todecimal_def latin1_runtime_def pomodoro_except_def)

lemma duration_minutes_0: "duration_minutes latin1_runtime [ascii ''0''] = Inr 0"
  by (simp add: duration_minutes_def isdigit_def isdigit_char_def int_str_def todecimal_def
      ascii_def latin1_runtime_def)

lemma duration_minutes_5000000000:
  "duration_minutes latin1_runtime [ascii ''5000000000''] = Inr 5000000000"
  by (simp add: duration_minutes_def isdigit_def isdigit_char_def int_str_def todecimal_def
      ascii_def latin1_runtime_def)

text \<open>
  C3, as stated, fails: the request \<^verbatim>\<open>/pomodoro 5000000000\<close> resolves to a delay of
  300000000000 seconds, which is not below 5, and no job is registered for it, since
  \<^verbatim>\<open>run_once\<close> raises and the exception leaves the handler.
\<close>

theorem pomodoro_delay_out_of_range:
  "duration_minutes latin1_runtime [ascii ''5000000000''] = Inr 5000000000
   \<and> 5 \<le> duration_seconds 5000000000
   \<and> pomodoro_command latin1_runtime example_update [ascii ''5000000000''] example_bot
       = Inl OverflowError"
proof -
  have "duration_seconds 5000000000 = 300000000000"
    by (simp add: duration_seconds_def)
  then show ?thesis
    by (simp add: pomodoro_command_cases [OF duration_minutes_5000000000] latin1_horizon
        duration_minutes_5000000000)
qed

text \<open>
  C3, as amended. For a request read as \<open>m\<close> minutes: if the resolved delay is below 5
  seconds, the only effect is the reply with the minimum-duration message, and no job is
  registered; if it is at least 5 seconds and the scheduler can hold the time of firing,
  exactly one job is added to the queue, with the resolved delay.
\<close>

theorem pomodoro_minimum_delay:
  assumes "duration_minutes rt args = Inr m"
  shows "(duration_seconds m < 5 \<longrightarrow>
            pomodoro_command rt upd args st = Inr (reply_text upd minimum_text None st) \<and>
            job_queue (reply_text upd minimum_text None st) = job_queue st \<and>
            sent (reply_text upd minimum_text None st) =
              sent st @ [\<lparr>msg_chat_id = effective_chat_id upd, msg_text = minimum_text,
                          msg_parse_mode = None\<rparr>])
       \<and> (5 \<le> duration_seconds m \<and> duration_seconds m \<le> scheduler_horizon rt \<longrightarrow>
            (\<exists>st' j. pomodoro_command rt upd args st = Inr st' \<and>
                 job_queue st' = job_queue st @ [j] \<and> job_when j = duration_seconds m))"
  using assms by (simp add: pomodoro_command_cases reply_text_def)

theorem pomodoro_minimum_delay_witness:
  "duration_minutes latin1_runtime [ascii ''0''] = Inr 0 \<and> duration_seconds 0 < 5 \<and>
   pomodoro_command latin1_runtime example_update [ascii ''0''] example_bot
     = Inr (reply_text example_update minimum_text None example_bot) \<and>
   duration_minutes latin1_runtime [] = Inr 25 \<and> 5 \<le> duration_seconds 25 \<and>
   duration_seconds 25 \<le> scheduler_horizon latin1_runtime \<and>
   (\<exists>st' j. pomodoro_command latin1_runtime example_update [] example_bot = Inr st' \<and>
          job_queue st' = job_queue example_bot @ [j] \<and> job_when j = 10)"
proof -
  have s: "duration_seconds 0 < 5" "5 \<le> duration_seconds 25" "duration_seconds 25 = 10"
    "duration_seconds 25 \<le> scheduler_horizon latin1_runtime"
    by (simp_all add: duration_seconds_def latin1_horizon)
  from pomodoro_minimum_delay [OF duration_minutes_0, of example_update example_bot]
    pomodoro_minimum_delay [OF duration_minutes_default, of latin1_runtime example_update example_bot]
    duration_minutes_0 duration_minutes_default [of latin1_runtime] s
  show ?thesis by simp
qed

lemma alarm_callback_type:
  "job_data jb (ascii ''type'') = Some ty \<Longrightarrow>
   alarm_callback jb s = Inr (send_message (job_chat_id jb) (alarm_text ty) Markdown s)"
  by (simp add: alarm_callback_def)

text \<open>
  C4. A request of \<open>m\<close> minutes is accepted when its delay reaches the floor of 5
  seconds and the scheduler can hold its time of firing. Then the one job registered
  carries the chat of the request and the label \<open>m\<close>\<^verbatim>\<open>-minute study\<close>; the
  confirmation sent to the chat states \<open>m\<close>, the requested minutes; and the callback,
  run on that job in any state, sends exactly one message, to that chat, whose text
  contains the stored label, and changes nothing else.
\<close>

theorem pomodoro_accepted:
  assumes "duration_minutes rt args = Inr m" and "5 \<le> duration_seconds m"
    and "duration_seconds m \<le> scheduler_horizon rt"
  shows "\<exists>st' j. pomodoro_command rt upd args st = Inr st'
      \<and> job_queue st' = job_queue st @ [j]
      \<and> job_chat_id j = effective_chat_id upd \<and> job_when j = duration_seconds m
      \<and> job_data j (ascii ''type'') = Some (str_int m @ ascii ''-minute study'')
      \<and> sent st' =
          sent st @ [\<lparr>msg_chat_id = effective_chat_id upd,
                      msg_text = [0x2705] @ ascii '' Timer set! You are now focusing for ''
                        @ str_int m @ ascii '' minutes. I'll notify you when time's up!'',
                      msg_parse_mode = None\<rparr>]
      \<and> (\<forall>s. \<exists>s'. alarm_callback j s = Inr s'
            \<and> user_tasks s' = user_tasks s \<and> job_queue s' = job_queue s
            \<and> sent s' = sent s @ [\<lparr>msg_chat_id = effective_chat_id upd,
                   msg_text = ascii ''**DING DING!** Your ''
                     @ (str_int m @ ascii ''-minute study'')
                     @ ascii '' timer is finished! Time for a well-deserved break or move on to the next task.'',
                   msg_parse_mode = Some (ascii ''Markdown'')\<rparr>])"
  using assms
  by (simp add: pomodoro_command_cases reply_text_def timer_set_text_def study_label_def
      alarm_callback_def alarm_text_def Markdown_def)

lemma label_25: "str_int 25 @ ascii ''-minute study'' = ascii ''25-minute study''"
  by (simp add: str_int_def str_nat.simps ascii_def)

theorem pomodoro_accepted_witness:
  "duration_minutes latin1_runtime [] = Inr 25 \<and> 5 \<le> duration_seconds 25 \<and>
   duration_seconds 25 \<le> scheduler_horizon latin1_runtime \<and>
   (\<exists>st' j. pomodoro_command latin1_runtime example_update [] example_bot = Inr st'
      \<and> job_queue st' = [j]
      \<and> job_chat_id j = 7 \<and> job_when j = 10
      \<and> job_data j (ascii ''type'') = Some (ascii ''25-minute study'')
      \<and> (\<exists>s'. alarm_callback j example_bot = Inr s' \<and>
            sent s' = [\<lparr>msg_chat_id = 7,
                 msg_text = ascii ''**DING DING!** Your 25-minute study timer is finished! Time for a well-deserved break or move on to the next task.'',
                 msg_parse_mode = Some (ascii ''Markdown'')\<rparr>]))"
proof -
  have d: "duration_minutes latin1_runtime [] = Inr 25"
    by (rule duration_minutes_default)
  have s: "5 \<le> duration_seconds 25" and t: "duration_seconds 25 = 10"
    and h: "duration_seconds 25 \<le> scheduler_horizon latin1_runtime"
    by (simp_all add: duration_seconds_def latin1_horizon)
  have e: "ascii ''**DING DING!** Your '' @ ascii ''25-minute study''
      @ ascii '' timer is finished! Time for a well-deserved break or move on to the next task.''
     = ascii ''**DING DING!** Your 25-minute study timer is finished! Time for a well-deserved break or move on to the next task.''"
    by (simp add: ascii_def)
  from pomodoro_accepted [OF d s h, of example_update example_bot]
  obtain st' j where r: "pomodoro_command latin1_runtime example_update [] example_bot = Inr st'"
    and q: "job_queue st' = job_queue example_bot @ [j]"
    and c: "job_chat_id j = effective_chat_id example_update"
    and w: "job_when j = duration_seconds 25"
    and l: "job_data j (ascii ''type'') = Some (str_int 25 @ ascii ''-minute study'')"
    and a: "\<forall>s. \<exists>s'. alarm_callback j s = Inr s'
            \<and> user_tasks s' = user_tasks s \<and> job_queue s' = job_queue s
            \<and> sent s' = sent s @ [\<lparr>msg_chat_id = effective_chat_id example_update,
                   msg_text = ascii ''**DING DING!** Your ''
                     @ (str_int 25 @ ascii ''-minute study'')
                     @ ascii '' timer is finished! Time for a well-deserved break or move on to the next task.'',
                   msg_parse_mode = Some (ascii ''Markdown'')\<rparr>]"
    by blast
  from a obtain s' where s': "alarm_callback j example_bot = Inr s'"
    and m: "sent s' = sent example_bot @ [\<lparr>msg_chat_id = effective_chat_id example_update,
                   msg_text = ascii ''**DING DING!** Your ''
                     @ (str_int 25 @ ascii ''-minute study'')
                     @ ascii '' timer is finished! Time for a well-deserved break or move on to the next task.'',
                   msg_parse_mode = Some (ascii ''Markdown'')\<rparr>]"
    by blast
  have "job_queue st' = [j]"
    using q by (simp add: example_bot_def)
  moreover have "job_chat_id j = 7"
    using c by (simp add: example_update_def)
  moreover have "job_when j = 10"
    using w t by simp
  moreover have "job_data j (ascii ''type'') = Some (ascii ''25-minute study'')"
    using l by (simp only: label_25)
  moreover have "sent s' = [\<lparr>msg_chat_id = 7,
                 msg_text = ascii ''**DING DING!** Your 25-minute study timer is finished! Time for a well-deserved break or move on to the next task.'',
                 msg_parse_mode = Some (ascii ''Markdown'')\<rparr>]"
    using m unfolding label_25 e by (simp add: example_update_def example_bot_def)
  ultimately show ?thesis
    using d s h r s' by blast
qed

subsection \<open>Task store\<close>

lemma strip_empty_iff: "strip s = [] \<longleftrightarrow> list_all isspace s"
proof
  assume "list_all isspace s"
  then have "dropWhile isspace s = []"
    by (simp add: list_all_iff)
  then show "strip s = []"
    by (simp only: strip_def rev.simps dropWhile.simps)
next
  assume "strip s = []"
  then have "\<forall>x \<in> set (dropWhile isspace s). isspace x"
    by (simp add: strip_def dropWhile_eq_Nil_conv)
  then have "dropWhile isspace s = []"
    using hd_dropWhile [of isspace s] hd_in_set [of "dropWhile isspace s"] by blast
  then show "list_all isspace s"
    by (simp add: list_all_iff dropWhile_eq_Nil_conv)
qed

lemma tasks_add_command_blank:
  "strip (join (ascii '' '') args) = [] \<Longrightarrow>
   tasks_add_command upd args st = reply_text upd tasks_add_usage None st"
  by (simp add: tasks_add_command_def)

lemma tasks_add_command_text:
  "strip (join (ascii '' '') args) = task_text \<Longrightarrow> task_text \<noteq> [] \<Longrightarrow>
   tasks_add_command upd args st =
     reply_text upd
       (task_added_text task_text
          (length ((case user_tasks st (effective_user_id upd) of None \<Rightarrow> [] | Some xs \<Rightarrow> xs)
             @ [task_text])))
       Markdown
       (st\<lparr>user_tasks := (user_tasks st)(effective_user_id upd \<mapsto>
           (case user_tasks st (effective_user_id upd) of None \<Rightarrow> [] | Some xs \<Rightarrow> xs)
             @ [task_text])\<rparr>)"
  by (auto simp add: tasks_add_command_def Let_def)

text \<open>
  C5. When the text of the command, the arguments joined by blanks, is empty after
  trimming (it is empty or consists of whitespace), the only effect of
  \<^verbatim>\<open>tasks_add_command\<close> is the usage reply: the task dictionary is the same
  dictionary, so no list is created for a user who has none.
\<close>

theorem tasks_add_blank:
  assumes "strip (join (ascii '' '') args) = []"
  shows "tasks_add_command upd args st = reply_text upd tasks_add_usage None st
     \<and> user_tasks (tasks_add_command upd args st) = user_tasks st
     \<and> sent (tasks_add_command upd args st) =
         sent st @ [\<lparr>msg_chat_id = effective_chat_id upd, msg_text = tasks_add_usage,
                     msg_parse_mode = None\<rparr>]"
  using assms by (simp add: tasks_add_command_blank reply_text_def)

lemma strip_blanks: "strip (join (ascii '' '') [ascii ''  '', [9]]) = []"
  by (simp add: strip_def isspace_def ascii_def)

theorem tasks_add_blank_witness:
  "strip (join (ascii '' '') [ascii ''  '', [9]]) = [] \<and>
   strip (join (ascii '' '') []) = [] \<and>
   user_tasks (tasks_add_command example_update [ascii ''  '', [9]] example_bot) 7 = None \<and>
   user_tasks (tasks_add_command example_update [] two_tasks_bot) = user_tasks two_tasks_bot"
proof -
  have e: "strip (join (ascii '' '') []) = []"
    by (simp add: strip_def)
  from tasks_add_blank [OF strip_blanks, of example_update example_bot]
    tasks_add_blank [OF e, of example_update two_tasks_bot] strip_blanks e
  show ?thesis by (simp add: example_bot_def reply_text_def)
qed

lemma enumerate_tasks_append:
  "enumerate_tasks message i (tasks @ [task]) =
     enumerate_tasks message i tasks @ task_line (i + int (length tasks)) task"
  by (induction tasks arbitrary: message i) (simp_all add: add.assoc add.commute)

text \<open>
  C6. When the trimmed text is not empty, \<^verbatim>\<open>tasks_add_command\<close> stores the list of
  the user (the empty list when the user has none) extended by the text, and its reply
  carries the new length \<open>n\<close>; the text is at position \<open>n\<close> of the new list, and the
  listing sent right after ends with the line numbered \<open>n\<close> that holds the text.
\<close>

theorem tasks_add_appends:
  assumes "strip (join (ascii '' '') args) = task_text" and "task_text \<noteq> []"
    and "tasks = (case user_tasks st (effective_user_id upd) of None \<Rightarrow> [] | Some xs \<Rightarrow> xs)"
    and "st' = tasks_add_command upd args st"
    and "n = Suc (length tasks)"
  shows "user_tasks st' (effective_user_id upd) = Some (tasks @ [task_text])
     \<and> sent st' = sent st @ [\<lparr>msg_chat_id = effective_chat_id upd,
          msg_text = [0x1F4DD] @ ascii '' Task added: **'' @ task_text @ ascii ''** (Task #''
             @ str_int (int n) @ ascii '')'',
          msg_parse_mode = Some (ascii ''Markdown'')\<rparr>]
     \<and> length (tasks @ [task_text]) = n \<and> (tasks @ [task_text]) ! (n - 1) = task_text
     \<and> sent (tasks_list_command upd st') = sent st' @ [\<lparr>msg_chat_id = effective_chat_id upd,
          msg_text = enumerate_tasks list_header 1 tasks
             @ (str_int (int n) @ ascii ''. '' @ task_text @ [10]),
          msg_parse_mode = Some (ascii ''Markdown'')\<rparr>]"
proof -
  have st': "st' = reply_text upd (task_added_text task_text n) Markdown
       (st\<lparr>user_tasks := (user_tasks st)(effective_user_id upd \<mapsto> tasks @ [task_text])\<rparr>)"
    using assms by (simp add: tasks_add_command_text)
  have u: "user_tasks st' (effective_user_id upd) = Some (tasks @ [task_text])"
    by (simp add: st' reply_text_def)
  have s: "sent st' = sent st @ [\<lparr>msg_chat_id = effective_chat_id upd,
          msg_text = [0x1F4DD] @ ascii '' Task added: **'' @ task_text @ ascii ''** (Task #''
             @ str_int (int n) @ ascii '')'',
          msg_parse_mode = Some (ascii ''Markdown'')\<rparr>]"
    by (simp add: st' reply_text_def task_added_text_def Markdown_def)
  have l: "sent (tasks_list_command upd st') = sent st' @ [\<lparr>msg_chat_id = effective_chat_id upd,
          msg_text = enumerate_tasks list_header 1 tasks
             @ (str_int (int n) @ ascii ''. '' @ task_text @ [10]),
          msg_parse_mode = Some (ascii ''Markdown'')\<rparr>]"
    using \<open>n = Suc (length tasks)\<close>
    by (simp add: tasks_list_command_def u reply_text_def enumerate_tasks_append task_line_def
        Markdown_def add.commute)
  from u s l \<open>n = Suc (length tasks)\<close> show ?thesis by simp
qed

lemma strip_write_essay:
  "strip (join (ascii '' '') [ascii ''Write'', ascii ''essay'']) = ascii ''Write essay''"
  by (simp add: strip_def isspace_def ascii_def)

theorem tasks_add_appends_witness:
  "strip (join (ascii '' '') [ascii ''Write'', ascii ''essay'']) = ascii ''Write essay'' \<and>
   ascii ''Write essay'' \<noteq> [] \<and>
   user_tasks (tasks_add_command example_update [ascii ''Write'', ascii ''essay''] two_tasks_bot) 7
     = Some [ascii ''Read Chapter 3'', ascii ''Do homework'', ascii ''Write essay''] \<and>
   msg_text (last (sent (tasks_list_command example_update
       (tasks_add_command example_update [ascii ''Write'', ascii ''essay''] two_tasks_bot))))
     = [0x1F4DA] @ ascii '' **Your Current Study Tasks:**'' @ [10, 10]
       @ ascii ''1. Read Chapter 3'' @ [10] @ ascii ''2. Do homework'' @ [10]
       @ ascii ''3. Write essay'' @ [10]"
proof -
  have n: "ascii ''Write essay'' \<noteq> []"
    by (simp add: ascii_def)
  have t: "[ascii ''Read Chapter 3'', ascii ''Do homework''] =
      (case user_tasks two_tasks_bot (effective_user_id example_update) of
         None \<Rightarrow> [] | Some xs \<Rightarrow> xs)"
    by (simp add: two_tasks_bot_def example_update_def)
  have e: "enumerate_tasks list_header 1 [ascii ''Read Chapter 3'', ascii ''Do homework'']
       @ (str_int (int 3) @ ascii ''. '' @ ascii ''Write essay'' @ [10])
     = [0x1F4DA] @ ascii '' **Your Current Study Tasks:**'' @ [10, 10]
       @ ascii ''1. Read Chapter 3'' @ [10] @ ascii ''2. Do homework'' @ [10]
       @ ascii ''3. Write essay'' @ [10]"
    by (simp add: list_header_def task_line_def str_int_def str_nat.simps ascii_def)
  note r = tasks_add_appends [OF strip_write_essay n t refl, of 3, unfolded e]
  from r have u: "user_tasks (tasks_add_command example_update [ascii ''Write'', ascii ''essay'']
        two_tasks_bot) 7
     = Some [ascii ''Read Chapter 3'', ascii ''Do homework'', ascii ''Write essay'']"
    by (simp add: example_update_def)
  from r have l: "msg_text (last (sent (tasks_list_command example_update
       (tasks_add_command example_update [ascii ''Write'', ascii ''essay''] two_tasks_bot))))
     = [0x1F4DA] @ ascii '' **Your Current Study Tasks:**'' @ [10, 10]
       @ ascii ''1. Read Chapter 3'' @ [10] @ ascii ''2. Do homework'' @ [10]
       @ ascii ''3. Write essay'' @ [10]"
    by simp
  from strip_write_essay n u l show ?thesis by blast
qed

lemma pop_in_range:
  "0 \<le> i \<Longrightarrow> i < int (length xs) \<Longrightarrow>
   pop xs i = Inr (xs ! nat i, take (nat i) xs @ drop (Suc (nat i)) xs)"
  by (simp add: pop_def Let_def)

lemma tasks_done_command_number:
  assumes "isdigit rt a" and "int_str rt a = Inr k"
  shows "tasks_done_command rt upd (a # others) st =
    (case user_tasks st (effective_user_id upd) of
       None \<Rightarrow> reply_text upd nothing_done_text None st
     | Some tasks \<Rightarrow>
         if tasks = [] then reply_text upd nothing_done_text None st
         else if 1 \<le> k \<and> k \<le> int (length tasks) then
           reply_text upd (completed_text (tasks ! nat (k - 1))) Markdown
             (st\<lparr>user_tasks := (user_tasks st)(effective_user_id upd \<mapsto>
                 take (nat (k - 1)) tasks @ drop (Suc (nat (k - 1))) tasks)\<rparr>)
         else reply_text upd no_such_task_text None st)"
  using assms
  by (auto simp add: tasks_done_command_def Let_def pop_in_range split: option.splits)

text \<open>
  C7. For a user with the list \<open>tasks\<close> and an argument read as \<open>k\<close> with
  \<open>1 \<le> k \<le> length tasks\<close>, \<^verbatim>\<open>tasks_done_command\<close> reports the \<open>k\<close>-th task in its
  reply and stores the list without it: one element shorter, the elements before
  position \<open>k\<close> where they were and every later element one position down.
\<close>

theorem tasks_done_removes:
  assumes "user_tasks st (effective_user_id upd) = Some tasks"
    and "isdigit rt a" and "int_str rt a = Inr k"
    and "1 \<le> k" and "k \<le> int (length tasks)"
    and "rest = take (nat (k - 1)) tasks @ drop (nat k) tasks"
  shows "tasks_done_command rt upd (a # others) st =
       reply_text upd ([0x2705] @ ascii '' Great job! You completed: **''
                         @ tasks ! nat (k - 1) @ ascii ''**'')
         (Some (ascii ''Markdown''))
         (st\<lparr>user_tasks := (user_tasks st)(effective_user_id upd \<mapsto> rest)\<rparr>)
     \<and> user_tasks (tasks_done_command rt upd (a # others) st) (effective_user_id upd) = Some rest
     \<and> Suc (length rest) = length tasks
     \<and> (\<forall>j. j < nat (k - 1) \<longrightarrow> rest ! j = tasks ! j)
     \<and> (\<forall>j. nat (k - 1) \<le> j \<and> j < length rest \<longrightarrow> rest ! j = tasks ! Suc j)"
proof -
  from assms have ne: "tasks \<noteq> []" by auto
  have sk: "Suc (nat (k - 1)) = nat k"
    using \<open>1 \<le> k\<close> by simp
  have eq: "tasks_done_command rt upd (a # others) st =
       reply_text upd ([0x2705] @ ascii '' Great job! You completed: **''
                         @ tasks ! nat (k - 1) @ ascii ''**'')
         (Some (ascii ''Markdown''))
         (st\<lparr>user_tasks := (user_tasks st)(effective_user_id upd \<mapsto> rest)\<rparr>)"
    using assms ne
    by (simp add: tasks_done_command_number sk completed_text_def Markdown_def)
  have u: "user_tasks (tasks_done_command rt upd (a # others) st) (effective_user_id upd) = Some rest"
    by (simp add: eq reply_text_def)
  have len: "Suc (length rest) = length tasks"
    using assms by (auto simp: min_def)
  have before: "rest ! j = tasks ! j" if "j < nat (k - 1)" for j
    using that assms by (simp add: nth_append)
  have after: "rest ! j = tasks ! Suc j" if "nat (k - 1) \<le> j" "j < length rest" for j
  proof -
    have l: "length (take (nat (k - 1)) tasks) = nat (k - 1)"
      using assms by auto
    have "rest ! j = drop (nat k) tasks ! (j - nat (k - 1))"
      using that l assms by (simp add: nth_append)
    also have "\<dots> = tasks ! (nat k + (j - nat (k - 1)))"
      using that len assms by (simp add: nth_drop)
    also have "nat k + (j - nat (k - 1)) = Suc j"
      using that sk by linarith
    finally show ?thesis .
  qed
  from eq u len before after show ?thesis by blast
qed

lemma isdigit_1: "isdigit latin1_runtime (ascii ''1'')"
  by (simp add: isdigit_def isdigit_char_def ascii_def)

lemma int_str_1: "int_str latin1_runtime (ascii ''1'') = Inr 1"
  by (simp add: int_str_def todecimal_def ascii_def latin1_runtime_def)

lemma isdigit_9: "isdigit latin1_runtime (ascii ''9'')"
  by (simp add: isdigit_def isdigit_char_def ascii_def)

lemma int_str_9: "int_str latin1_runtime (ascii ''9'') = Inr 9"
  by (simp add: int_str_def todecimal_def ascii_def latin1_runtime_def)

lemma two_tasks_bot_7:
  "user_tasks two_tasks_bot (effective_user_id example_update)
     = Some [ascii ''Read Chapter 3'', ascii ''Do homework'']"
  by (simp add: two_tasks_bot_def example_update_def)

theorem tasks_done_removes_witness:
  "user_tasks two_tasks_bot (effective_user_id example_update)
     = Some [ascii ''Read Chapter 3'', ascii ''Do homework''] \<and>
   isdigit latin1_runtime (ascii ''1'') \<and> int_str latin1_runtime (ascii ''1'') = Inr 1 \<and>
   (1::int) \<le> 1 \<and> (1::int) \<le> int (length [ascii ''Read Chapter 3'', ascii ''Do homework'']) \<and>
   user_tasks (tasks_done_command latin1_runtime example_update [ascii ''1''] two_tasks_bot) 7
     = Some [ascii ''Do homework''] \<and>
   msg_text (last (sent (tasks_done_command latin1_runtime example_update [ascii ''1'']
       two_tasks_bot)))
     = [0x2705] @ ascii '' Great job! You completed: **Read Chapter 3**''"
proof -
  have k: "(1::int) \<le> 1" "(1::int) \<le> int (length [ascii ''Read Chapter 3'', ascii ''Do homework''])"
    by simp_all
  have r: "[ascii ''Do homework''] =
      take (nat (1 - 1)) [ascii ''Read Chapter 3'', ascii ''Do homework'']
      @ drop (nat 1) [ascii ''Read Chapter 3'', ascii ''Do homework'']"
    by simp
  note t = tasks_done_removes [OF two_tasks_bot_7 isdigit_1 int_str_1 k r, of "[]"]
  from t [THEN conjunct2, THEN conjunct1] have u: "user_tasks (tasks_done_command latin1_runtime example_update [ascii ''1'']
        two_tasks_bot) 7 = Some [ascii ''Do homework'']"
    by (simp add: example_update_def)
  from t [THEN conjunct1] have "msg_text (last (sent (tasks_done_command latin1_runtime example_update
        [ascii ''1''] two_tasks_bot)))
     = [0x2705] @ ascii '' Great job! You completed: **'' @ ascii ''Read Chapter 3'' @ ascii ''**''"
    by (simp add: reply_text_def)
  then have m: "msg_text (last (sent (tasks_done_command latin1_runtime example_update
        [ascii ''1''] two_tasks_bot)))
     = [0x2705] @ ascii '' Great job! You completed: **Read Chapter 3**''"
    by (simp add: ascii_def)
  from two_tasks_bot_7 isdigit_1 int_str_1 k u m show ?thesis by blast
qed

text \<open>
  C8. For an argument read as the number \<open>k\<close>: when the user has no list or an empty
  one, the only effect of \<^verbatim>\<open>tasks_done_command\<close> is the reply that the list is
  empty; when the user has a non-empty list and \<open>k\<close> is below 1 or above its length, the
  only effect is the reply that the task number does not exist. In both cases the task
  dictionary is unchanged.
\<close>

theorem tasks_done_failures:
  assumes "isdigit rt a" and "int_str rt a = Inr k"
    and "st' = tasks_done_command rt upd (a # others) st"
  shows "((user_tasks st (effective_user_id upd) = None
            \<or> user_tasks st (effective_user_id upd) = Some []) \<longrightarrow>
          st' = reply_text upd nothing_done_text None st \<and> user_tasks st' = user_tasks st)
     \<and> (\<forall>tasks. user_tasks st (effective_user_id upd) = Some tasks \<and> tasks \<noteq> []
            \<and> (k < 1 \<or> int (length tasks) < k) \<longrightarrow>
          st' = reply_text upd no_such_task_text None st \<and> user_tasks st' = user_tasks st)"
  using assms by (auto simp add: tasks_done_command_number reply_text_def)

theorem tasks_done_failures_witness:
  "isdigit latin1_runtime (ascii ''9'') \<and> int_str latin1_runtime (ascii ''9'') = Inr 9 \<and>
   user_tasks example_bot (effective_user_id example_update) = None \<and>
   tasks_done_command latin1_runtime example_update [ascii ''9''] example_bot
     = reply_text example_update nothing_done_text None example_bot \<and>
   user_tasks two_tasks_bot (effective_user_id example_update)
     = Some [ascii ''Read Chapter 3'', ascii ''Do homework''] \<and>
   int (length [ascii ''Read Chapter 3'', ascii ''Do homework'']) < 9 \<and>
   tasks_done_command latin1_runtime example_update [ascii ''9''] two_tasks_bot
     = reply_text example_update no_such_task_text None two_tasks_bot \<and>
   user_tasks (tasks_done_command latin1_runtime example_update [ascii ''9''] two_tasks_bot)
     = user_tasks two_tasks_bot"
proof -
  have n: "user_tasks example_bot (effective_user_id example_update) = None"
    by (simp add: example_bot_def)
  have l: "int (length [ascii ''Read Chapter 3'', ascii ''Do homework'']) < 9"
    by simp
  have ne: "[ascii ''Read Chapter 3'', ascii ''Do homework''] \<noteq> []"
    by simp
  from tasks_done_failures [OF isdigit_9 int_str_9 refl,
      where upd = example_update and others = "[]" and st = example_bot] n
  have a: "tasks_done_command latin1_runtime example_update [ascii ''9''] example_bot
     = reply_text example_update nothing_done_text None example_bot"
    by blast
  from tasks_done_failures [OF isdigit_9 int_str_9 refl,
      where upd = example_update and others = "[]" and st = two_tasks_bot]
    two_tasks_bot_7 l ne
  have b: "tasks_done_command latin1_runtime example_update [ascii ''9''] two_tasks_bot
     = reply_text example_update no_such_task_text None two_tasks_bot \<and>
    user_tasks (tasks_done_command latin1_runtime example_update [ascii ''9''] two_tasks_bot)
     = user_tasks two_tasks_bot"
    by blast
  from isdigit_9 int_str_9 n a two_tasks_bot_7 l b show ?thesis by blast
qed

text \<open>
  C10. The handlers of the task store, run for one user, leave the entry of every other
  user as it was.
\<close>

theorem tasks_frame:
  assumes "v \<noteq> effective_user_id upd"
  shows "user_tasks (tasks_add_command upd args st) v = user_tasks st v
     \<and> user_tasks (tasks_list_command upd st) v = user_tasks st v
     \<and> user_tasks (tasks_done_command rt upd args st) v = user_tasks st v"
proof -
  have add: "user_tasks (tasks_add_command upd args st) v = user_tasks st v"
    using assms by (simp add: tasks_add_command_def Let_def reply_text_def)
  have lst: "user_tasks (tasks_list_command upd st) v = user_tasks st v"
    by (simp add: tasks_list_command_def reply_text_def split: option.splits)
  have dn: "user_tasks (tasks_done_command rt upd args st) v = user_tasks st v"
    using assms
    by (simp add: tasks_done_command_def Let_def reply_text_def
        split: list.splits sum.splits option.splits prod.splits)
  from add lst dn show ?thesis by blast
qed

theorem tasks_frame_witness:
  "(7::int) \<noteq> effective_user_id \<lparr>effective_user_id = 8, effective_chat_id = 8\<rparr> \<and>
   user_tasks (tasks_add_command \<lparr>effective_user_id = 8, effective_chat_id = 8\<rparr>
       [ascii ''Write essay''] two_tasks_bot) 7
     = Some [ascii ''Read Chapter 3'', ascii ''Do homework''] \<and>
   user_tasks (tasks_list_command \<lparr>effective_user_id = 8, effective_chat_id = 8\<rparr>
       two_tasks_bot) 7
     = Some [ascii ''Read Chapter 3'', ascii ''Do homework''] \<and>
   user_tasks (tasks_done_command latin1_runtime \<lparr>effective_user_id = 8, effective_chat_id = 8\<rparr>
       [ascii ''1''] two_tasks_bot) 7
     = Some [ascii ''Read Chapter 3'', ascii ''Do homework'']"
proof -
  have v: "(7::int) \<noteq> effective_user_id \<lparr>effective_user_id = 8, effective_chat_id = 8\<rparr>"
    by simp
  have t: "user_tasks two_tasks_bot 7 = Some [ascii ''Read Chapter 3'', ascii ''Do homework'']"
    by (simp add: two_tasks_bot_def)
  from tasks_frame [OF v, where args = "[ascii ''Write essay'']" and st = two_tasks_bot
      and rt = latin1_runtime]
    tasks_frame [OF v, where args = "[ascii ''1'']" and st = two_tasks_bot
      and rt = latin1_runtime] v t
  show ?thesis by simp
qed

subsection \<open>Quotes\<close>

lemma length_quotes: "length quotes = 5"
  by (simp add: quotes_def)

lemma get_motivational_quote_nth: "get_motivational_quote r = Inr (quotes ! (r mod 5))"
  by (simp add: get_motivational_quote_def choice_def length_quotes) (simp add: quotes_def)

text \<open>Every quote of the list can be drawn, so the model of the draw leaves none out.\<close>

lemma every_quote_drawn: "q \<in> set quotes \<Longrightarrow> \<exists>r. get_motivational_quote r = Inr q"
proof -
  assume "q \<in> set quotes"
  then obtain i where "i < 5" and "quotes ! i = q"
    by (auto simp: in_set_conv_nth length_quotes)
  then have "get_motivational_quote i = Inr q"
    by (simp add: get_motivational_quote_nth)
  then show ?thesis ..
qed

text \<open>
  C9, as amended. For every draw, the reply of \<^verbatim>\<open>quote_command\<close> is the fixed header
  followed by a quote of the list of five, set between two underscores; the quote is the
  one \<^verbatim>\<open>get_motivational_quote\<close> returned.
\<close>

theorem quote_reply_wraps_quote:
  "\<exists>q. q \<in> set quotes \<and> length quotes = 5 \<and> get_motivational_quote r = Inr q \<and>
     quote_command r upd st =
       Inr (reply_text upd
             ([0x1F4A1] @ ascii '' **Motivation Boost:**'' @ [10, 10] @ ascii ''_'' @ q @ ascii ''_'')
             (Some (ascii ''Markdown'')) st)"
proof -
  have "quotes ! (r mod 5) \<in> set quotes"
    by (simp add: length_quotes)
  moreover have "quote_command r upd st =
       Inr (reply_text upd
             ([0x1F4A1] @ ascii '' **Motivation Boost:**'' @ [10, 10] @ ascii ''_''
                @ quotes ! (r mod 5) @ ascii ''_'')
             (Some (ascii ''Markdown'')) st)"
    by (simp add: quote_command_def get_motivational_quote_nth quote_header_def Markdown_def)
  ultimately show ?thesis
    using length_quotes get_motivational_quote_nth by blast
qed

text \<open>
  C9, as stated, fails: the reply for the draw 0 carries the header and is not one of the
  five quotes.
\<close>

theorem quote_reply_not_a_quote:
  "quote_command 0 example_update example_bot =
     Inr (example_bot\<lparr>sent := [\<lparr>msg_chat_id = 7,
        msg_text = [0x1F4A1] @ ascii '' **Motivation Boost:**'' @ [10, 10]
          @ ascii ''_The mind is not a vessel to be filled, but a fire to be kindled. - Plutarch_'',
        msg_parse_mode = Some (ascii ''Markdown'')\<rparr>]\<rparr>)
   \<and> [0x1F4A1] @ ascii '' **Motivation Boost:**'' @ [10, 10]
          @ ascii ''_The mind is not a vessel to be filled, but a fire to be kindled. - Plutarch_''
       \<notin> set quotes"
proof -
  have "quotes ! (0 mod 5) =
      ascii ''The mind is not a vessel to be filled, but a fire to be kindled. - Plutarch''"
    by (simp add: quotes_def)
  then have "quote_command 0 example_update example_bot =
     Inr (example_bot\<lparr>sent := [\<lparr>msg_chat_id = 7,
        msg_text = [0x1F4A1] @ ascii '' **Motivation Boost:**'' @ [10, 10]
          @ ascii ''_The mind is not a vessel to be filled, but a fire to be kindled. - Plutarch_'',
        msg_parse_mode = Some (ascii ''Markdown'')\<rparr>]\<rparr>)"
    by (simp add: quote_command_def get_motivational_quote_nth quote_header_def Markdown_def
        reply_text_def send_message_def example_update_def example_bot_def ascii_def)
  moreover have "[0x1F4A1] @ ascii '' **Motivation Boost:**'' @ [10, 10]
          @ ascii ''_The mind is not a vessel to be filled, but a fire to be kindled. - Plutarch_''
       \<notin> set quotes"
    by (simp add: quotes_def ascii_def)
  ultimately show ?thesis by blast
qed

end
